theory Spec2Isabelle
  imports Main "HOL-Library.Word"
begin

unbundle bit_operations_syntax

section \<open>Data model\<close>

text \<open>
  Go strings are byte sequences: \<open>string\<close>. \<open>net.IP\<close> is a byte slice; \<open>uint32\<close> is
  a 32-bit word. A \<open>time.Time\<close> is an instant, counted in nanoseconds from Go's zero
  time (January 1, year 1, 00:00:00 UTC), and a \<open>time.Duration\<close> a number of
  nanoseconds; both are \<open>int\<close> here: the instants and durations of this program
  (parsed timestamps, the wall clock, a configured expiry) are far from the 64-bit
  limits, and no claim depends on wrap-around there.
\<close>

type_synonym byte = "8 word"
type_synonym uint32 = "32 word"
type_synonym IP = "byte list"
type_synonym Time = int
type_synonym Duration = int

text \<open>\<open>time.Minute\<close> and \<open>time.Hour\<close>, in nanoseconds.\<close>

definition Minute :: Duration where
  "Minute = 60000000000"

definition Hour :: Duration where
  "Hour = 60 * Minute"

text \<open>
  The package-level error values (\<open>ErrUsernameEmpty\<close>, ...) are declared outside the two
  source files; each is one fixed value that is not nil, compared by identity. An error made on the spot
  by \<open>errors.New\<close> or \<open>fmt.Errorf\<close> is \<open>ErrorsNew\<close> with its text.
\<close>

datatype error =
    ErrUsernameEmpty
  | ErrUserNotFound
  | ErrMutiUsers
  | ErrUserIPBlocked
  | ErrUserLocked
  | ErrPasswordEmpty
  | ErrPasswordNotMatch
  | ErrSignatureInvalid
  | ErrorsNew string

text \<open>
  A value of Go's \<open>interface{}\<close> in a row of the store: nil, a string, a byte slice, a
  time, or a value of any other type, given by its Go syntax.
\<close>

datatype val = VNil | VString string | VBytes string | VTime Time | VOther string

text \<open>
  The functions of Go's standard library that the program calls and whose code is not
  part of it: they are parameters of the model. \<open>ParseIP\<close> is \<open>net.ParseIP\<close>
  (\<open>None\<close> for Go's nil); \<open>SplitHostPort\<close> is the host part of
  \<open>net.SplitHostPort\<close> (the empty string when it fails, as Go returns);
  \<open>ParseCIDR\<close> gives the \<open>Contains\<close> method of the network that \<open>net.ParseCIDR\<close>
  returns (\<open>None\<close> when it fails); \<open>TrimSpace\<close> is \<open>strings.TrimSpace\<close>;
  \<open>JsonUnmarshal\<close> is \<open>json.Unmarshal\<close> into a slice of strings (\<open>None\<close> when it
  fails); \<open>TimeParse\<close> is \<open>time.Parse\<close> of a layout and a text (\<open>None\<close> when it
  fails); \<open>Sprintf\<close> is the text \<open>fmt\<close> prints for a verb (\<open>%T\<close>, \<open>%v\<close>, \<open>%s\<close>)
  and a value.
\<close>

record Lib =
  ParseIP :: "string \<Rightarrow> IP option"
  SplitHostPort :: "string \<Rightarrow> string"
  ParseCIDR :: "string \<Rightarrow> (IP \<Rightarrow> bool) option"
  TrimSpace :: "string \<Rightarrow> string"
  JsonUnmarshal :: "string \<Rightarrow> string list option"
  TimeParse :: "string \<Rightarrow> string \<Rightarrow> Time option"
  Sprintf :: "string \<Rightarrow> val \<Rightarrow> string"

subsection \<open>IP checkers\<close>

text \<open>
  \<open>ip.To4()\<close>: the 4-byte form of an IPv4 address (given as 4 bytes, or as 16 bytes
  with the IPv4-in-IPv6 prefix), nil otherwise. The 4-byte slice is a 4-tuple here.
\<close>

definition To4 :: "IP \<Rightarrow> (byte \<times> byte \<times> byte \<times> byte) option" where
  "To4 ip =
     (if length ip = 4 then Some (ip ! 0, ip ! 1, ip ! 2, ip ! 3)
      else if length ip = 16 \<and> list_all (\<lambda>b. b = 0) (take 10 ip)
              \<and> ip ! 10 = 0xff \<and> ip ! 11 = 0xff
      then Some (ip ! 12, ip ! 13, ip ! 14, ip ! 15)
      else None)"

text \<open>\<open>binary.BigEndian.Uint32\<close> on a 4-byte slice.\<close>

definition Uint32 :: "byte \<times> byte \<times> byte \<times> byte \<Rightarrow> uint32" where
  "Uint32 b =
     (case b of (b0, b1, b2, b3) \<Rightarrow>
        ucast b3 OR push_bit 8 (ucast b2) OR push_bit 16 (ucast b1) OR push_bit 24 (ucast b0))"

record ipRange =
  range_start :: uint32
  range_end :: uint32

text \<open>\<open>(r *ipRange) Contains\<close>; the fields are \<open>start\<close> and \<open>end\<close> in the source.\<close>

definition ipRange_Contains :: "ipRange \<Rightarrow> IP \<Rightarrow> bool" where
  "ipRange_Contains r ip =
     (case To4 ip of
        None \<Rightarrow> False
      | Some b \<Rightarrow> (let v = Uint32 b in range_start r \<le> v \<or> v \<le> range_end r))"

text \<open>
  The interface \<open>IPChecker\<close> has two implementations in the program: \<open>*ipRange\<close> and
  the library's \<open>*net.IPNet\<close>, which is its \<open>Contains\<close> method here.
\<close>

datatype IPChecker = RangeChecker ipRange | NetChecker "IP \<Rightarrow> bool"

fun Contains :: "IPChecker \<Rightarrow> IP \<Rightarrow> bool" where
  "Contains (RangeChecker r) ip = ipRange_Contains r ip"
| "Contains (NetChecker f) ip = f ip"

text \<open>\<open>IPRange\<close> and \<open>IPRangeWith\<close>: the constructors of a range checker.\<close>

text \<open>The text of the error of \<open>IPRange\<close>, in UTF-8.\<close>

definition IPv6_unsupported :: string where
  "IPv6_unsupported =
     ''ip range '' @ [CHR 0xE4, CHR 0xB8, CHR 0x8D, CHR 0xE6, CHR 0x94, CHR 0xAF, CHR 0xE6, CHR 0x8C, CHR 0x81] @ '' IPv6''"

definition IPRange :: "IP \<Rightarrow> IP \<Rightarrow> error + IPChecker" where
  "IPRange s e =
     (case To4 s of
        None \<Rightarrow> Inl (ErrorsNew IPv6_unsupported)
      | Some sb \<Rightarrow>
          (case To4 e of
             None \<Rightarrow> Inl (ErrorsNew IPv6_unsupported)
           | Some eb \<Rightarrow>
               Inr (RangeChecker \<lparr>range_start = Uint32 sb, range_end = Uint32 eb\<rparr>)))"

definition IPRangeWith :: "Lib \<Rightarrow> string \<Rightarrow> string \<Rightarrow> error + IPChecker" where
  "IPRangeWith lib s e =
     (case ParseIP lib s of
        None \<Rightarrow> Inl (ErrorsNew (s @ '' is invalid address''))
      | Some sip \<Rightarrow>
          (case ParseIP lib e of
             None \<Rightarrow> Inl (ErrorsNew (e @ '' is invalid address''))
           | Some eip \<Rightarrow> IPRange sip eip))"

subsection \<open>Requests and the caller address\<close>

text \<open>
  Of \<open>*http.Request\<close> the program reads \<open>RemoteAddr\<close> and \<open>Header.Get\<close>, which
  gives the empty string for a header that is absent.
\<close>

record Request =
  RemoteAddr :: string
  Header_Get :: "string \<Rightarrow> string"

definition HeaderXForwardedFor :: string where
  "HeaderXForwardedFor = ''X-Forwarded-For''"

definition HeaderXRealIP :: string where
  "HeaderXRealIP = ''X-Real-IP''"

definition RealIP :: "Lib \<Rightarrow> Request \<Rightarrow> string" where
  "RealIP lib req =
     (if Header_Get req HeaderXForwardedFor \<noteq> '''' then Header_Get req HeaderXForwardedFor
      else if Header_Get req HeaderXRealIP \<noteq> '''' then Header_Get req HeaderXRealIP
      else SplitHostPort lib (RemoteAddr req))"

subsection \<open>User records\<close>

type_synonym row = "string \<rightharpoonup> val"

text \<open>\<open>data[key]\<close> on a Go map: nil for a key that is absent.\<close>

definition index_row :: "row \<Rightarrow> string \<Rightarrow> val" where
  "index_row m k = (case m k of None \<Rightarrow> VNil | Some v \<Rightarrow> v)"

text \<open>
  The handler that maps rows to records. Its field \<open>db\<close> is the connection to the
  store, which no function modelled here reads. The fields \<open>blockIPList\<close> and
  \<open>lockedTimeExpires\<close> have the names of fields of \<open>UserImpl\<close>; they are written
  \<open>dbUserHandler.blockIPList\<close> and \<open>dbUserHandler.lockedTimeExpires\<close>.
\<close>

record dbUserHandler =
  querySQL :: string
  lockSQL :: string
  passwordName :: string
  blockIPList :: string
  lockedFieldName :: string
  lockedTimeExpires :: Duration
  lockedTimeLayout :: string

record UserImpl =
  name :: string
  password :: string
  lockedAt :: Time
  lockedTimeExpires :: Duration
  blockIPList :: "IPChecker list"
  data :: row

definition IsZero :: "Time \<Rightarrow> bool" where
  "IsZero t = (t = 0)"

text \<open>
  The loop of \<open>CanUse\<close> over the checkers: \<open>blocked\<close> starts true and the first
  checker that contains the address makes it false and ends the loop.
\<close>

fun blocked :: "IPChecker list \<Rightarrow> IP \<Rightarrow> bool" where
  "blocked [] ip = True"
| "blocked (checker # rest) ip = (if Contains checker ip then False else blocked rest ip)"

text \<open>
  \<open>CanUse\<close> is two guarded blocks and a final \<open>return true, nil\<close>. Each block is a
  function that gives the pair the block returns with, or \<open>None\<close> when control falls
  through it: \<open>ipCheck\<close> is the block on \<open>blockIPList\<close>, \<open>lockCheck\<close> the block on
  \<open>lockedAt\<close>. \<open>now\<close> is what \<open>time.Now()\<close> reads.
\<close>

definition ipCheck :: "Lib \<Rightarrow> UserImpl \<Rightarrow> Request \<Rightarrow> (bool \<times> error option) option" where
  "ipCheck lib u req =
     (if length (blockIPList u) \<noteq> 0 then
        (let currentAddr = RealIP lib req in
         case ParseIP lib currentAddr of
           None \<Rightarrow>
             Some (False,
               Some (ErrorsNew (''client address is invalid - '' @ [CHR 0x27] @ currentAddr @ [CHR 0x27])))
         | Some ip \<Rightarrow> if blocked (blockIPList u) ip then Some (False, Some ErrUserIPBlocked) else None)
      else None)"

definition lockCheck :: "UserImpl \<Rightarrow> Time \<Rightarrow> (bool \<times> error option) option" where
  "lockCheck u now =
     (if \<not> IsZero (lockedAt u) then
        (if lockedTimeExpires u = 0 then Some (False, Some ErrUserLocked)
         else if now < lockedAt u + lockedTimeExpires u then Some (False, Some ErrUserLocked)
         else None)
      else None)"

definition CanUse :: "Lib \<Rightarrow> UserImpl \<Rightarrow> Request \<Rightarrow> Time \<Rightarrow> bool \<times> error option" where
  "CanUse lib u req now =
     (case ipCheck lib u req of
        Some returned \<Rightarrow> returned
      | None \<Rightarrow>
          (case lockCheck u now of
             Some returned \<Rightarrow> returned
           | None \<Rightarrow> (True, None)))"

subsection \<open>From a row to a record\<close>

text \<open>
  \<open>parseTime\<close>: the configured layout first, when there is one, then three fixed
  layouts in order; the zero time when none parses the text.
\<close>

fun parseLayouts :: "Lib \<Rightarrow> string list \<Rightarrow> string \<Rightarrow> Time" where
  "parseLayouts lib [] s = 0"
| "parseLayouts lib (layout # rest) s =
     (case TimeParse lib layout s of Some t \<Rightarrow> t | None \<Rightarrow> parseLayouts lib rest s)"

definition RFC3339Nano :: string where
  "RFC3339Nano = ''2006-01-02T15:04:05.999999999Z07:00''"

definition RFC3339 :: string where
  "RFC3339 = ''2006-01-02T15:04:05Z07:00''"

definition parseTime :: "Lib \<Rightarrow> string \<Rightarrow> string \<Rightarrow> Time" where
  "parseTime lib layout s =
     (let fallback = parseLayouts lib [RFC3339Nano, RFC3339, ''2006-01-02 15:04:05.999999999Z07:00''] s
      in if layout \<noteq> '''' then
           (case TimeParse lib layout s of Some t \<Rightarrow> t | None \<Rightarrow> fallback)
         else fallback)"

text \<open>
  \<open>strings.Split\<close> on a separator of one byte. Its result is never empty (the empty
  text gives one empty part), so the first branch of the \<open>case\<close> below is not taken.
\<close>

fun Split :: "string \<Rightarrow> char \<Rightarrow> string list" where
  "Split [] sep = [[]]"
| "Split (c # cs) sep =
     (if c = sep then [] # Split cs sep
      else (case Split cs sep of [] \<Rightarrow> [[c]] | x # xs \<Rightarrow> (c # x) # xs))"

text \<open>
  The texts of the errors of \<open>toUser\<close>: \<open>"value of '" + field + "' " + rest\<close>. The
  source puts the field name into the format of \<open>fmt.Errorf\<close>; the text here is the
  one printed for a field name without a \<open>%\<close> sign.
\<close>

definition value_of :: "string \<Rightarrow> string \<Rightarrow> error" where
  "value_of field rest =
     ErrorsNew (''value of '' @ [CHR 0x27] @ field @ [CHR 0x27] @ '' '' @ rest)"

text \<open>
  The loop of \<open>toUser\<close> over the entries of the block list: a range \<open>a-b\<close>, a network
  \<open>a/len\<close> or one address; an empty entry is skipped, the first bad one is an error.
\<close>

fun blockIPList_entries :: "Lib \<Rightarrow> string \<Rightarrow> string list \<Rightarrow> IPChecker list \<Rightarrow> error + IPChecker list" where
  "blockIPList_entries lib field [] acc = Inr acc"
| "blockIPList_entries lib field (s0 # rest) acc =
     (let s = TrimSpace lib s0 in
      if s = '''' then blockIPList_entries lib field rest acc
      else if CHR ''-'' \<in> set s then
        (let ss = Split s (CHR ''-'') in
         if length ss \<noteq> 2 then Inl (value_of field (''isn't invalid ip range - '' @ s))
         else
           (case IPRangeWith lib (ss ! 0) (ss ! 1) of
              Inl err \<Rightarrow> Inl (value_of field (''isn't invalid ip range - '' @ s))
            | Inr checker \<Rightarrow> blockIPList_entries lib field rest (acc @ [checker])))
      else if CHR ''/'' \<in> set s then
        (case ParseCIDR lib s of
           None \<Rightarrow> Inl (value_of field (''isn't invalid ip range - '' @ s))
         | Some cidr \<Rightarrow> blockIPList_entries lib field rest (acc @ [NetChecker cidr]))
      else
        (case IPRangeWith lib s s of
           Inl err \<Rightarrow> Inl (value_of field (''isn't invalid ip range - '' @ s))
         | Inr checker \<Rightarrow> blockIPList_entries lib field rest (acc @ [checker])))"

text \<open>The three parts of \<open>toUser\<close>, in the order of the source, and \<open>toUser\<close>.\<close>

definition toUser_password :: "Lib \<Rightarrow> dbUserHandler \<Rightarrow> row \<Rightarrow> error + string" where
  "toUser_password lib ah m =
     (case index_row m (passwordName ah) of
        VNil \<Rightarrow> Inr ''''
      | VString s \<Rightarrow> Inr s
      | v \<Rightarrow> Inl (value_of (passwordName ah) (''isn't string - '' @ Sprintf lib ''%T'' v)))"

definition toUser_lockedAt :: "Lib \<Rightarrow> dbUserHandler \<Rightarrow> row \<Rightarrow> error + Time" where
  "toUser_lockedAt lib ah m =
     (case index_row m (lockedFieldName ah) of
        VNil \<Rightarrow> Inr 0
      | VBytes v \<Rightarrow>
          (if length v \<noteq> 0 then
             (let t = parseTime lib (lockedTimeLayout ah) v in
              if IsZero t then Inl (value_of (lockedFieldName ah) (''isn't time - '' @ v))
              else Inr t)
           else Inr 0)
      | VString v \<Rightarrow>
          (if v \<noteq> '''' then
             (let t = parseTime lib (lockedTimeLayout ah) v in
              if IsZero t then Inl (value_of (lockedFieldName ah) (''isn't time - '' @ v))
              else Inr t)
           else Inr 0)
      | VTime v \<Rightarrow> Inr v
      | VOther v \<Rightarrow>
          Inl (value_of (lockedFieldName ah)
                (''isn't time - '' @ Sprintf lib ''%T'' (VOther v) @ '':'' @ Sprintf lib ''%v'' (VOther v))))"

definition toUser_blockIPList :: "Lib \<Rightarrow> dbUserHandler \<Rightarrow> row \<Rightarrow> error + IPChecker list" where
  "toUser_blockIPList lib ah m =
     (case index_row m (dbUserHandler.blockIPList ah) of
        VNil \<Rightarrow> Inr []
      | VString s \<Rightarrow>
          (case JsonUnmarshal lib s of
             None \<Rightarrow> Inl (value_of (dbUserHandler.blockIPList ah) (''isn't []string - '' @ s))
           | Some ipList \<Rightarrow> blockIPList_entries lib (dbUserHandler.blockIPList ah) ipList [])
      | v \<Rightarrow>
          Inl (value_of (dbUserHandler.blockIPList ah)
                (''isn't string - '' @ Sprintf lib ''%T'' v @ '': '' @ Sprintf lib ''%s'' v)))"

definition toUser :: "Lib \<Rightarrow> dbUserHandler \<Rightarrow> string \<Rightarrow> row \<Rightarrow> error + UserImpl" where
  "toUser lib ah user m =
     (case toUser_password lib ah m of
        Inl err \<Rightarrow> Inl err
      | Inr pw \<Rightarrow>
          (case toUser_lockedAt lib ah m of
             Inl err \<Rightarrow> Inl err
           | Inr locked \<Rightarrow>
               (case toUser_blockIPList lib ah m of
                  Inl err \<Rightarrow> Inl err
                | Inr checkers \<Rightarrow>
                    Inr \<lparr>name = user, password = pw, lockedAt = locked,
                         lockedTimeExpires = dbUserHandler.lockedTimeExpires ah,
                         blockIPList = checkers, data = m\<rparr>)))"

subsection \<open>Rewriting placeholders\<close>

text \<open>\<open>strings.Index\<close> of a separator of one byte; \<open>None\<close> is Go's \<open>-1\<close>.\<close>

fun Index :: "string \<Rightarrow> char \<Rightarrow> nat option" where
  "Index [] c = None"
| "Index (x # xs) c =
     (if x = c then Some 0 else (case Index xs c of None \<Rightarrow> None | Some p \<Rightarrow> Some (Suc p)))"

text \<open>What \<open>%d\<close> prints for a number that is not negative.\<close>

definition digit :: "nat \<Rightarrow> char" where
  "digit d = ''0123456789'' ! d"

function decimal :: "nat \<Rightarrow> string" where
  "decimal n = (if n < 10 then [digit n] else decimal (n div 10) @ [digit (n mod 10)])"
  by pat_completeness auto
termination
  by (relation "measure (\<lambda>n. n)") auto

declare decimal.simps [simp del]

lemma Index_less: "Index s c = Some p \<Longrightarrow> p < length s"
  by (induction s arbitrary: p) (auto split: if_splits option.splits)

text \<open>
  The loop of \<open>ReplacePlaceholders\<close>, on the buffer, the counter \<open>i\<close> and what is left
  of \<open>sql\<close>; its value is the buffer after the final \<open>buf.WriteString(sql)\<close>. The
  counter is a Go \<open>int\<close>: it counts bytes of a string, so it does not overflow.
\<close>

function ReplaceLoop :: "string \<Rightarrow> nat \<Rightarrow> string \<Rightarrow> string" where
  "ReplaceLoop buf i sql =
     (case Index sql (CHR ''?'') of
        None \<Rightarrow> buf @ sql
      | Some p \<Rightarrow>
          if length (drop p sql) > 1 \<and> take 2 (drop p sql) = ''??'' then
            (if length (drop p sql) = 1 then (buf @ take p sql @ ''?'') @ sql
             else ReplaceLoop (buf @ take p sql @ ''?'') i (drop (p + 2) sql))
          else ReplaceLoop (buf @ take p sql @ ''$'' @ decimal (i + 1)) (i + 1) (drop (p + 1) sql))"
  by pat_completeness auto
termination
  by (relation "measure (\<lambda>(buf, i, sql). length sql)") (auto dest: Index_less)

declare ReplaceLoop.simps [simp del]

definition ReplacePlaceholders :: "string \<Rightarrow> string" where
  "ReplacePlaceholders sql = ReplaceLoop [] 0 sql"

text \<open>
  The rewriting as the specification words it, read from left to right: a doubled
  placeholder becomes one placeholder and takes no number; a single placeholder becomes
  \<open>$\<close> and the next number; every other byte is kept.
\<close>

fun numbered_from :: "nat \<Rightarrow> string \<Rightarrow> string" where
  "numbered_from i [] = []"
| "numbered_from i [c] = (if c = CHR ''?'' then ''$'' @ decimal (i + 1) else [c])"
| "numbered_from i (c # d # rest) =
     (if c = CHR ''?'' then
        (if d = CHR ''?'' then CHR ''?'' # numbered_from i rest
         else ''$'' @ decimal (i + 1) @ numbered_from (i + 1) (d # rest))
      else c # numbered_from i (d # rest))"

subsection \<open>Authentication\<close>

text \<open>
  The interface \<open>User\<close> as \<open>Auth\<close> uses it: a value with its methods. \<open>Auth\<close> calls
  the usability check as \<open>IsValid(address)\<close>; the check reads the clock, which is the
  second argument here. The parameter \<open>password\<close> of \<open>Auth\<close> is \<open>passwd\<close>, since
  \<open>password\<close> is the field of \<open>UserImpl\<close>.
\<close>

record User =
  Name :: string
  Password :: string
  IsValid :: "string \<Rightarrow> Time \<Rightarrow> bool \<times> error option"
  Data :: row

text \<open>
  The interface \<open>UserHandler\<close> as \<open>Auth\<close> uses it: \<open>Read(username, address)\<close> reads
  the store, whose state \<open>'s\<close> it may change. \<open>SigningMethod\<close> is declared outside the
  source files; \<open>Auth\<close> calls its \<open>Verify(password, expected, key)\<close>, \<open>None\<close> for a
  nil error.
\<close>

record 's UserHandler =
  Read :: "string \<Rightarrow> string \<Rightarrow> 's \<Rightarrow> (error + User list) \<times> 's"

record SigningMethod =
  Verify :: "string \<Rightarrow> string \<Rightarrow> string \<Rightarrow> error option"

record 's userAuthenticationHandler =
  userHandler :: "'s UserHandler"
  signingMethod :: SigningMethod
  secretKey :: string

definition Auth ::
  "'s userAuthenticationHandler \<Rightarrow> string \<Rightarrow> string \<Rightarrow> string \<Rightarrow> Time \<Rightarrow> 's \<Rightarrow> (error + row) \<times> 's" where
  "Auth ah address username passwd now s =
     (if username = '''' then (Inl ErrUsernameEmpty, s)
      else
        (case Read (userHandler ah) username address s of
           (Inl err, s') \<Rightarrow> (Inl err, s')
         | (Inr users, s') \<Rightarrow>
             if length users = 0 then (Inl ErrUserNotFound, s')
             else if length users \<noteq> 1 then (Inl ErrMutiUsers, s')
             else
               (case IsValid (users ! 0) address now of
                  (ok, Some err) \<Rightarrow> (Inl err, s')
                | (ok, None) \<Rightarrow>
                    if \<not> ok then (Inl (ErrorsNew ''user is inused''), s')
                    else
                      (let exceptedPassword = Password (users ! 0) in
                       if exceptedPassword = '''' then (Inl ErrPasswordEmpty, s')
                       else
                         (case Verify (signingMethod ah) passwd exceptedPassword (secretKey ah) of
                            Some err \<Rightarrow>
                              if err = ErrSignatureInvalid then (Inl ErrPasswordNotMatch, s')
                              else (Inl err, s')
                          | None \<Rightarrow> (Inr (Data (users ! 0)), s'))))))"

text \<open>
  A \<open>*UserImpl\<close> as a \<open>User\<close>. The usability check of \<open>UserImpl\<close> is
  \<open>CanUse(req)\<close>, on the request of the caller, where \<open>Auth\<close> has the caller's
  address: \<open>reqOf\<close> gives the request an address stands for, and is any function.
\<close>

definition asUser :: "Lib \<Rightarrow> (string \<Rightarrow> Request) \<Rightarrow> UserImpl \<Rightarrow> User" where
  "asUser lib reqOf u =
     \<lparr>Name = name u, Password = password u,
      IsValid = (\<lambda>address now. CanUse lib u (reqOf address) now),
      Data = data u\<rparr>"

subsection \<open>Examples\<close>

text \<open>The 16-byte form in which \<open>net.ParseIP\<close> gives an IPv4 address.\<close>

definition v4 :: "byte \<Rightarrow> byte \<Rightarrow> byte \<Rightarrow> byte \<Rightarrow> IP" where
  "v4 a b c d = [0, 0, 0, 0, 0, 0, 0, 0, 0, 0, 0xff, 0xff, a, b, c, d]"

text \<open>\<open>Contains\<close> of the network \<open>10.0.0.0/8\<close>.\<close>

definition net10 :: "IP \<Rightarrow> bool" where
  "net10 ip = (case To4 ip of None \<Rightarrow> False | Some (a, b, c, d) \<Rightarrow> a = 10)"

text \<open>A library that knows four addresses and one network.\<close>

definition lib0 :: Lib where
  "lib0 =
     \<lparr>ParseIP = (\<lambda>s. if s = ''10.0.0.5'' then Some (v4 10 0 0 5)
                     else if s = ''10.0.0.10'' then Some (v4 10 0 0 10)
                     else if s = ''10.0.0.20'' then Some (v4 10 0 0 20)
                     else if s = ''192.168.1.1'' then Some (v4 192 168 1 1) else None),
      SplitHostPort = takeWhile (\<lambda>c. c \<noteq> CHR '':''),
      ParseCIDR = (\<lambda>s. if s = ''10.0.0.0/8'' then Some net10 else None),
      TrimSpace = (\<lambda>s. s),
      JsonUnmarshal = (\<lambda>s. None),
      TimeParse = (\<lambda>layout s. None),
      Sprintf = (\<lambda>verb v. '''')\<rparr>"

text \<open>The request of a caller at an address, with no forwarding header.\<close>

definition reqOf0 :: "string \<Rightarrow> Request" where
  "reqOf0 address = \<lparr>RemoteAddr = address @ '':4000'', Header_Get = (\<lambda>k. '''')\<rparr>"

definition now0 :: Time where
  "now0 = 63900000000000000000"

definition carol_row :: row where
  "carol_row = [''username'' \<mapsto> VString ''carol'', ''password'' \<mapsto> VString ''secret'']"

text \<open>carol was locked one hour ago, for 30 minutes; she has no block list.\<close>

definition carol :: UserImpl where
  "carol =
     \<lparr>name = ''carol'', password = ''secret'', lockedAt = now0 - Hour,
      lockedTimeExpires = 30 * Minute, blockIPList = [], data = carol_row\<rparr>"

text \<open>dave is carol with the block list \<open>10.0.0.0/8\<close>.\<close>

definition dave :: UserImpl where
  "dave = carol\<lparr>blockIPList := [NetChecker net10]\<rparr>"

text \<open>erin is carol with the block list \<open>10.0.0.10-10.0.0.20\<close>, one range.\<close>

definition erin :: UserImpl where
  "erin = carol\<lparr>blockIPList := [RangeChecker \<lparr>range_start = 0x0A00000A, range_end = 0x0A000014\<rparr>]\<rparr>"

text \<open>
  A handler over a store that holds the given records for every username and counts
  its reads; the signing method compares the two texts.
\<close>

definition auth_of :: "UserImpl list \<Rightarrow> nat userAuthenticationHandler" where
  "auth_of us =
     \<lparr>userHandler = \<lparr>Read = (\<lambda>username address n. (Inr (map (asUser lib0 reqOf0) us), Suc n))\<rparr>,
      signingMethod =
        \<lparr>Verify = (\<lambda>plain expected key. if plain = expected then None else Some ErrSignatureInvalid)\<rparr>,
      secretKey = ''''\<rparr>"

definition h0 :: dbUserHandler where
  "h0 =
     \<lparr>querySQL = ''SELECT * FROM users WHERE username = ?'', lockSQL = '''',
      passwordName = ''password'', blockIPList = '''', lockedFieldName = '''',
      lockedTimeExpires = 0, lockedTimeLayout = ''''\<rparr>"

definition alice_row :: row where
  "alice_row = [''username'' \<mapsto> VString ''alice'', ''password'' \<mapsto> VString ''s3cret'']"

definition alice :: UserImpl where
  "alice =
     \<lparr>name = ''alice'', password = ''s3cret'', lockedAt = 0,
      lockedTimeExpires = 0, blockIPList = [], data = alice_row\<rparr>"

section \<open>Helper facts\<close>


lemma To4_v4: "To4 (v4 a b c d) = Some (a, b, c, d)"
  by (simp add: To4_def v4_def)

lemma RealIP_reqOf0 [simp]: "RealIP lib0 (reqOf0 ''10.0.0.5'') = ''10.0.0.5''"
  "RealIP lib0 (reqOf0 ''192.168.1.1'') = ''192.168.1.1''"
  by (simp_all add: RealIP_def reqOf0_def lib0_def)

lemma ParseIP_lib0 [simp]: "ParseIP lib0 ''10.0.0.5'' = Some (v4 10 0 0 5)"
  "ParseIP lib0 ''192.168.1.1'' = Some (v4 192 168 1 1)"
  by (simp_all add: lib0_def)

lemma toUser_alice: "toUser lib0 h0 ''alice'' alice_row = Inr alice"
  by (simp add: toUser_def toUser_password_def toUser_lockedAt_def toUser_blockIPList_def
      index_row_def h0_def alice_row_def alice_def)

lemma ipCheck_carol: "ipCheck lib0 carol req = None"
  by (simp add: ipCheck_def carol_def)

lemma ipCheck_dave: "ipCheck lib0 dave (reqOf0 ''192.168.1.1'') = Some (False, Some ErrUserIPBlocked)"
  "ipCheck lib0 dave (reqOf0 ''10.0.0.5'') = None"
  by (simp_all add: ipCheck_def dave_def carol_def net10_def To4_v4)

lemma lockCheck_carol: "lockCheck carol now0 = None"
  by (simp add: lockCheck_def carol_def IsZero_def now0_def Hour_def Minute_def)

lemma blocked_iff: "blocked cs ip = (\<forall>c\<in>set cs. \<not> Contains c ip)"
  by (induction cs) auto

lemma CanUse_steps:
  "CanUse lib u req now =
     (if ipCheck lib u req \<noteq> None then the (ipCheck lib u req)
      else if lockCheck u now \<noteq> None then the (lockCheck u now)
      else (True, None))"
  by (auto simp: CanUse_def split: option.splits)

lemma lockCheck_cases:
  "lockCheck u now =
     (if lockedAt u \<noteq> 0 \<and> (lockedTimeExpires u = 0 \<or> now < lockedAt u + lockedTimeExpires u)
      then Some (False, Some ErrUserLocked) else None)"
  by (simp add: lockCheck_def IsZero_def)

lemma ipCheck_blocked_iff:
  "(blockIPList u = [] \<longrightarrow>
      ipCheck lib u req = None
      \<and> CanUse lib u req now = (case lockCheck u now of Some returned \<Rightarrow> returned | None \<Rightarrow> (True, None)))
   \<and> (blockIPList u \<noteq> [] \<longrightarrow> ParseIP lib (RealIP lib req) = Some ip \<longrightarrow>
        (ipCheck lib u req = Some (False, Some ErrUserIPBlocked)) = (\<forall>c\<in>set (blockIPList u). \<not> Contains c ip)
        \<and> (CanUse lib u req now = (False, Some ErrUserIPBlocked)) = (\<forall>c\<in>set (blockIPList u). \<not> Contains c ip))"
  by (auto simp: ipCheck_def CanUse_steps lockCheck_cases blocked_iff)

lemma ipRange_Contains_To4:
  "To4 ip = Some b \<Longrightarrow>
   ipRange_Contains r ip = (range_start r \<le> Uint32 b \<or> Uint32 b \<le> range_end r)"
  by (simp add: ipRange_Contains_def Let_def)

lemma Read_auth_of [simp]:
  "Read (userHandler (auth_of us)) username address n = (Inr (map (asUser lib0 reqOf0) us), Suc n)"
  by (simp add: auth_of_def)

lemma Verify_auth_of [simp]:
  "Verify (signingMethod (auth_of us)) plain expected (secretKey (auth_of us)) =
     (if plain = expected then None else Some ErrSignatureInvalid)"
  by (simp add: auth_of_def)

lemma asUser_sel [simp]:
  "Password (asUser lib reqOf u) = password u"
  "Data (asUser lib reqOf u) = data u"
  "IsValid (asUser lib reqOf u) address now = CanUse lib u (reqOf address) now"
  by (simp_all add: asUser_def)

text \<open>What \<open>Auth\<close> does after the usability check has passed.\<close>

lemma Auth_one_user:
  assumes "username \<noteq> ''''"
    and "Read (userHandler ah) username address s = (Inr [user], s')"
  shows "Auth ah address username passwd now s =
     (case IsValid user address now of
        (ok, Some err) \<Rightarrow> (Inl err, s')
      | (ok, None) \<Rightarrow>
          if \<not> ok then (Inl (ErrorsNew ''user is inused''), s')
          else if Password user = '''' then (Inl ErrPasswordEmpty, s')
          else
            (case Verify (signingMethod ah) passwd (Password user) (secretKey ah) of
               Some err \<Rightarrow> if err = ErrSignatureInvalid then (Inl ErrPasswordNotMatch, s') else (Inl err, s')
             | None \<Rightarrow> (Inr (Data user), s')))"
  using assms by (simp add: Auth_def Let_def split: prod.splits option.splits)

lemma Index_None_iff: "(Index s c = None) = (c \<notin> set s)"
  by (induction s) (auto split: option.splits)

lemma Index_Some_split:
  "Index s c = Some p \<Longrightarrow> c \<notin> set (take p s) \<and> drop p s = c # drop (Suc p) s"
proof (induction s arbitrary: p)
  case Nil
  then show ?case by simp
next
  case (Cons x xs)
  show ?case
  proof (cases "x = c")
    case True
    with Cons.prems show ?thesis by simp
  next
    case False
    with Cons.prems obtain q where q: "Index xs c = Some q" "p = Suc q"
      by (auto split: option.splits)
    with Cons.IH [OF q(1)] False show ?thesis by simp
  qed
qed

lemma numbered_from_other:
  "CHR ''?'' \<noteq> c \<Longrightarrow> numbered_from i (c # rest) = c # numbered_from i rest"
  by (cases rest) simp_all

lemma numbered_from_prefix:
  "CHR ''?'' \<notin> set pre \<Longrightarrow> numbered_from i (pre @ rest) = pre @ numbered_from i rest"
  by (induction pre) (simp_all add: numbered_from_other)

lemma numbered_from_none: "CHR ''?'' \<notin> set s \<Longrightarrow> numbered_from i s = s"
  using numbered_from_prefix [of s i "[]"] by simp

lemma numbered_from_single:
  "take 1 rest \<noteq> ''?'' \<Longrightarrow>
   numbered_from i (CHR ''?'' # rest) = ''$'' @ decimal (i + 1) @ numbered_from (i + 1) rest"
  by (cases rest) simp_all

lemma ReplaceLoop_numbered: "ReplaceLoop buf i sql = buf @ numbered_from i sql"
proof (induction buf i sql rule: ReplaceLoop.induct)
  case (1 buf i sql)
  show ?case
  proof (cases "Index sql (CHR ''?'')")
    case None
    then have "CHR ''?'' \<notin> set sql"
      by (simp add: Index_None_iff)
    then show ?thesis
      by (subst ReplaceLoop.simps) (simp add: None numbered_from_none)
  next
    case (Some p)
    from Index_Some_split [OF Some]
    have pre: "CHR ''?'' \<notin> set (take p sql)"
      and at: "drop p sql = CHR ''?'' # drop (Suc p) sql" by simp_all
    have sql: "sql = take p sql @ CHR ''?'' # drop (Suc p) sql"
      using at by (metis append_take_drop_id)
    show ?thesis
    proof (cases "length (drop p sql) > 1 \<and> take 2 (drop p sql) = ''??''")
      case True
      then have two: "drop (Suc p) sql = CHR ''?'' # drop (p + 2) sql"
        using at by (cases "drop (Suc p) sql") (auto simp: drop_Suc [symmetric] numeral_2_eq_2 dest: arg_cong [where f = tl] simp: tl_drop)
      have "ReplaceLoop buf i sql = ReplaceLoop (buf @ take p sql @ ''?'') i (drop (p + 2) sql)"
        using Some True by (subst ReplaceLoop.simps) simp
      also have "\<dots> = (buf @ take p sql @ ''?'') @ numbered_from i (drop (p + 2) sql)"
        using "1.IH"(1) [OF Some] True by simp
      also have "\<dots> = buf @ numbered_from i sql"
        by (subst (2) sql) (simp add: numbered_from_prefix [OF pre] two)
      finally show ?thesis .
    next
      case False
      then have single: "take 1 (drop (Suc p) sql) \<noteq> ''?''"
        using at by (cases "drop (Suc p) sql") (auto simp: numeral_2_eq_2)
      have "ReplaceLoop buf i sql =
            ReplaceLoop (buf @ take p sql @ ''$'' @ decimal (i + 1)) (i + 1) (drop (p + 1) sql)"
        using Some False by (subst ReplaceLoop.simps) auto
      also have "\<dots> = (buf @ take p sql @ ''$'' @ decimal (i + 1)) @ numbered_from (i + 1) (drop (p + 1) sql)"
        using "1.IH"(2) [OF Some] False by simp
      also have "\<dots> = buf @ numbered_from i sql"
        by (subst (2) sql) (simp add: numbered_from_prefix [OF pre] numbered_from_single [OF single])
      finally show ?thesis .
    qed
  qed
qed

lemma ReplacePlaceholders_example:
  "ReplacePlaceholders ''WHERE x=? AND y=??'' = ''WHERE x=$1 AND y=?''"
  by code_simp

text \<open>What the two blocks of \<open>CanUse\<close> return with, when they return.\<close>

lemma ipCheck_returns:
  "ipCheck lib u req = Some (ok, e) \<Longrightarrow>
   \<not> ok \<and> e \<noteq> None \<and> e \<noteq> Some (ErrorsNew ''user is inused'')"
  by (auto simp: ipCheck_def Let_def split: option.splits if_splits)

lemma lockCheck_returns:
  "lockCheck u now = Some (ok, e) \<Longrightarrow> \<not> ok \<and> e = Some ErrUserLocked"
  by (auto simp: lockCheck_cases split: if_splits)

lemma CanUse_returns:
  "CanUse lib u req now = (ok, e) \<Longrightarrow>
   ok = (e = None) \<and> e \<noteq> Some (ErrorsNew ''user is inused'')"
  by (auto simp: CanUse_def split: option.splits dest: ipCheck_returns lockCheck_returns)

lemma CanUse_flag: "CanUse lib u req now = (snd (CanUse lib u req now) = None, snd (CanUse lib u req now))"
  using CanUse_returns [of lib u req now] by (cases "CanUse lib u req now") auto

lemma CanUse_not_inused: "snd (CanUse lib u req now) \<noteq> Some (ErrorsNew ''user is inused'')"
  using CanUse_returns [of lib u req now] by (cases "CanUse lib u req now") auto

lemma Auth_inused:
  assumes r: "Read (userHandler ah) username address s = (Inr (map (asUser lib reqOf) us), s')"
    and v: "\<And>expected. Verify (signingMethod ah) passwd expected (secretKey ah) \<noteq> Some (ErrorsNew ''user is inused'')"
  shows "fst (Auth ah address username passwd now s) \<noteq> Inl (ErrorsNew ''user is inused'')"
proof (cases "username = '''' \<or> length us \<noteq> 1")
  case True
  then show ?thesis using r by (auto simp: Auth_def)
next
  case False
  then obtain u where us: "us = [u]" and n: "username \<noteq> ''''"
    by (cases us) auto
  have r1: "Read (userHandler ah) username address s = (Inr [asUser lib reqOf u], s')"
    using r us by simp
  obtain ok e where c: "CanUse lib u (reqOf address) now = (ok, e)"
    by (cases "CanUse lib u (reqOf address) now")
  have e: "e \<noteq> Some (ErrorsNew ''user is inused'')" and ok: "ok = (e = None)"
    using CanUse_not_inused [of lib u "reqOf address" now] CanUse_flag [of lib u "reqOf address" now] c
    by auto
  show ?thesis
    using e ok v [of "password u"]
    by (auto simp: Auth_one_user [OF n r1] c split: option.splits)
qed

lemma toUser_fields:
  "toUser lib h user m = Inr u \<Longrightarrow> data u = m \<and> toUser_password lib h m = Inr (password u)"
  by (auto simp: toUser_def split: sum.splits)

lemma toUser_password_stored:
  "toUser_password lib h m = Inr pw \<Longrightarrow> pw \<noteq> '''' \<Longrightarrow> m (passwordName h) = Some (VString pw)"
  by (auto simp: toUser_password_def index_row_def split: option.splits val.splits)

lemma ipRange_Contains_ordered:
  "range_start r \<le> range_end r \<Longrightarrow> To4 ip = Some b \<Longrightarrow> ipRange_Contains r ip"
  by (auto simp: ipRange_Contains_To4)

section \<open>Range containment\<close>

text \<open>
  C1. The claim: a range checker contains an IPv4 address exactly when the address is
  between \<open>start\<close> and \<open>end\<close>, both bounds holding, and a range with \<open>start\<close>
  above \<open>end\<close> contains no address. The code joins the two bounds with "or" (lemma
  \<open>ipRange_Contains_To4\<close>), so a range with \<open>start\<close> at or below \<open>end\<close> contains
  every IPv4 address (lemma \<open>ipRange_Contains_ordered\<close>). At the range from 10.0.0.10 to
  10.0.0.20, as \<open>IPRange\<close> builds it, and the address 10.0.0.5, which is below the
  range: the first bound fails, and \<open>Contains\<close> is true. At the range from 10.0.0.20
  to 10.0.0.10, whose \<open>start\<close> is above its \<open>end\<close>, \<open>Contains\<close> of 10.0.0.5 is true
  as well.
\<close>

theorem ipRange_Contains_outside_range:
  "IPRange (v4 10 0 0 10) (v4 10 0 0 20) =
     Inr (RangeChecker \<lparr>range_start = 0x0A00000A, range_end = 0x0A000014\<rparr>)
   \<and> To4 (v4 10 0 0 5) = Some (10, 0, 0, 5)
   \<and> Uint32 (10, 0, 0, 5) = 0x0A000005
   \<and> \<not> ((0x0A00000A :: uint32) \<le> 0x0A000005 \<and> (0x0A000005 :: uint32) \<le> 0x0A000014)
   \<and> Contains (RangeChecker \<lparr>range_start = 0x0A00000A, range_end = 0x0A000014\<rparr>) (v4 10 0 0 5)
   \<and> IPRange (v4 10 0 0 20) (v4 10 0 0 10) =
       Inr (RangeChecker \<lparr>range_start = 0x0A000014, range_end = 0x0A00000A\<rparr>)
   \<and> (0x0A00000A :: uint32) < 0x0A000014
   \<and> Contains (RangeChecker \<lparr>range_start = 0x0A000014, range_end = 0x0A00000A\<rparr>) (v4 10 0 0 5)"
  by (simp add: IPRange_def To4_v4 ipRange_Contains_def Uint32_def)

section \<open>The usability check\<close>

text \<open>
  C2, as the claim states it, fails: a permanent lock (\<open>lockedTimeExpires\<close> zero) and a
  temporary lock that still runs (locked one hour ago for two hours) fail with one and
  the same error, \<open>ErrUserLocked\<close>; the code has no second kind.
\<close>

theorem lock_kinds_not_distinct:
  "lockedTimeExpires (carol\<lparr>lockedTimeExpires := 0\<rparr>) = 0
   \<and> lockedTimeExpires (carol\<lparr>lockedTimeExpires := 2 * Hour\<rparr>) \<noteq> 0
   \<and> now0 < lockedAt (carol\<lparr>lockedTimeExpires := 2 * Hour\<rparr>) + lockedTimeExpires (carol\<lparr>lockedTimeExpires := 2 * Hour\<rparr>)
   \<and> CanUse lib0 (carol\<lparr>lockedTimeExpires := 0\<rparr>) (reqOf0 ''10.0.0.5'') now0 = (False, Some ErrUserLocked)
   \<and> CanUse lib0 (carol\<lparr>lockedTimeExpires := 2 * Hour\<rparr>) (reqOf0 ''10.0.0.5'') now0 = (False, Some ErrUserLocked)"
  by (simp add: CanUse_steps ipCheck_def lockCheck_cases carol_def now0_def Hour_def Minute_def)

text \<open>
  C2, amended: for a record with \<open>lockedAt\<close> set that passes the step on the block
  list, \<open>CanUse\<close> fails with \<open>ErrUserLocked\<close> when \<open>lockedTimeExpires\<close> is zero,
  and also when the current time is before \<open>lockedAt + lockedTimeExpires\<close>.
\<close>

theorem CanUse_locked:
  assumes "lockedAt u \<noteq> 0" and "ipCheck lib u req = None"
    and "lockedTimeExpires u = 0 \<or> now < lockedAt u + lockedTimeExpires u"
  shows "CanUse lib u req now = (False, Some ErrUserLocked)"
  using assms by (simp add: CanUse_steps lockCheck_cases)

theorem CanUse_locked_witness:
  "CanUse lib0 (carol\<lparr>lockedTimeExpires := 0\<rparr>) (reqOf0 ''10.0.0.5'') now0 = (False, Some ErrUserLocked)
   \<and> CanUse lib0 (carol\<lparr>lockedTimeExpires := 2 * Hour\<rparr>) (reqOf0 ''10.0.0.5'') now0 = (False, Some ErrUserLocked)"
proof -
  let ?p = "carol\<lparr>lockedTimeExpires := 0\<rparr>" and ?t = "carol\<lparr>lockedTimeExpires := 2 * Hour\<rparr>"
  have set: "lockedAt ?p \<noteq> 0" "lockedAt ?t \<noteq> 0"
    by (simp_all add: carol_def now0_def Hour_def Minute_def)
  have ip: "ipCheck lib0 ?p (reqOf0 ''10.0.0.5'') = None" "ipCheck lib0 ?t (reqOf0 ''10.0.0.5'') = None"
    by (simp_all add: ipCheck_def carol_def)
  have perm: "lockedTimeExpires ?p = 0 \<or> now0 < lockedAt ?p + lockedTimeExpires ?p"
    by simp
  have temp: "lockedTimeExpires ?t = 0 \<or> now0 < lockedAt ?t + lockedTimeExpires ?t"
    by (simp add: carol_def now0_def Hour_def Minute_def)
  from CanUse_locked [OF set(1) ip(1) perm] CanUse_locked [OF set(2) ip(2) temp]
  show ?thesis by simp
qed

text \<open>
  C4, as the claim states it, fails: dave's lock has expired (locked one hour ago for 30
  minutes), and \<open>CanUse\<close> still fails, since his block list does not contain the
  caller's address.
\<close>

theorem expired_lock_ip_blocked:
  "lockedAt dave \<noteq> 0 \<and> 0 < lockedTimeExpires dave
   \<and> lockedAt dave + lockedTimeExpires dave \<le> now0
   \<and> CanUse lib0 dave (reqOf0 ''192.168.1.1'') now0 = (False, Some ErrUserIPBlocked)"
  by (simp add: CanUse_steps ipCheck_dave) (simp add: dave_def carol_def now0_def Hour_def Minute_def)

text \<open>
  C4, amended: for a record with \<open>lockedAt\<close> set: when \<open>lockedTimeExpires\<close> is
  positive and the step on the block list passes, \<open>CanUse\<close> succeeds exactly when
  the current time is at or after \<open>lockedAt + lockedTimeExpires\<close>; when
  \<open>lockedTimeExpires\<close> is zero, \<open>CanUse\<close> succeeds at no time.
\<close>

theorem CanUse_lock_boundary:
  assumes "lockedAt u \<noteq> 0" 
  shows "(0 < lockedTimeExpires u \<longrightarrow> ipCheck lib u req = None \<longrightarrow>
            (CanUse lib u req now = (True, None)) = (lockedAt u + lockedTimeExpires u \<le> now))
       \<and> (lockedTimeExpires u = 0 \<longrightarrow> fst (CanUse lib u req now) = False)"
proof (cases "ipCheck lib u req")
  case None
  with assms show ?thesis
    by (auto simp: CanUse_steps lockCheck_cases)
next
  case (Some returned)
  then have "\<not> fst returned"
    using ipCheck_returns [of lib u req "fst returned" "snd returned"] by simp
  with Some show ?thesis
    by (simp add: CanUse_steps)
qed

theorem CanUse_lock_boundary_witness:
  "CanUse lib0 carol (reqOf0 ''10.0.0.5'') now0 = (True, None)
   \<and> lockedAt carol + lockedTimeExpires carol \<le> now0
   \<and> CanUse lib0 carol (reqOf0 ''10.0.0.5'') (now0 - Hour) \<noteq> (True, None)
   \<and> fst (CanUse lib0 (carol\<lparr>lockedTimeExpires := 0\<rparr>) (reqOf0 ''10.0.0.5'') now0) = False"
proof -
  let ?p = "carol\<lparr>lockedTimeExpires := 0\<rparr>"
  have set: "lockedAt carol \<noteq> 0" "lockedAt ?p \<noteq> 0"
    by (simp_all add: carol_def now0_def Hour_def Minute_def)
  have pos: "0 < lockedTimeExpires carol"
    by (simp add: carol_def Minute_def)
  have after: "lockedAt carol + lockedTimeExpires carol \<le> now0"
    and before: "\<not> lockedAt carol + lockedTimeExpires carol \<le> now0 - Hour"
    by (simp_all add: carol_def now0_def Hour_def Minute_def)
  from CanUse_lock_boundary [OF set(1), where lib = lib0 and req = "reqOf0 ''10.0.0.5''" and now = now0]
    CanUse_lock_boundary [OF set(1), where lib = lib0 and req = "reqOf0 ''10.0.0.5''" and now = "now0 - Hour"]
    CanUse_lock_boundary [OF set(2), where lib = lib0 and req = "reqOf0 ''10.0.0.5''" and now = now0]
    pos after before ipCheck_carol
  show ?thesis by simp
qed

text \<open>
  C5. The claim: with a block list that is not empty, the check fails with
  \<open>ErrUserIPBlocked\<close> exactly when the caller's address is in no entry of the list. The
  code asks each entry with its \<open>Contains\<close> (lemma \<open>ipCheck_blocked_iff\<close>), and for a
  range that is the "or" of C1. erin's block list is the one range from 10.0.0.10 to
  10.0.0.20, as \<open>toUser\<close> builds it from the entry \<open>10.0.0.10-10.0.0.20\<close>; the caller
  192.168.1.1 is above the range, so in no entry of the list: the step on the block list
  does not return, and \<open>CanUse\<close> succeeds.
\<close>

theorem CanUse_range_list_not_blocked:
  "blockIPList_entries lib0 ''block_list'' [''10.0.0.10-10.0.0.20''] [] = Inr (blockIPList erin)
   \<and> blockIPList erin = [RangeChecker \<lparr>range_start = 0x0A00000A, range_end = 0x0A000014\<rparr>]
   \<and> ParseIP lib0 (RealIP lib0 (reqOf0 ''192.168.1.1'')) = Some (v4 192 168 1 1)
   \<and> To4 (v4 192 168 1 1) = Some (192, 168, 1, 1)
   \<and> Uint32 (192, 168, 1, 1) = 0xC0A80101
   \<and> \<not> ((0x0A00000A :: uint32) \<le> 0xC0A80101 \<and> (0xC0A80101 :: uint32) \<le> 0x0A000014)
   \<and> ipCheck lib0 erin (reqOf0 ''192.168.1.1'') = None
   \<and> CanUse lib0 erin (reqOf0 ''192.168.1.1'') now0 = (True, None)"
proof -
  have entries: "blockIPList_entries lib0 ''block_list'' [''10.0.0.10-10.0.0.20''] [] = Inr (blockIPList erin)"
    by (simp add: erin_def lib0_def IPRangeWith_def IPRange_def To4_v4 Uint32_def)
  have ip: "ipCheck lib0 erin (reqOf0 ''192.168.1.1'') = None"
    by (simp add: ipCheck_def erin_def ipRange_Contains_def To4_v4 Uint32_def)
  have lock: "lockCheck erin now0 = None"
    by (simp add: lockCheck_cases erin_def carol_def now0_def Hour_def Minute_def)
  show ?thesis
    using entries ip lock by (simp add: CanUse_steps To4_v4 Uint32_def) (simp add: erin_def)
qed

section \<open>Authentication\<close>

text \<open>
  C7: with an empty username, \<open>Auth\<close> returns \<open>ErrUsernameEmpty\<close> and the state of
  the store is the one it started from, whatever \<open>Read\<close> of the user handler does:
  the handler is not called. (In the witness the store counts its reads.)
\<close>

theorem Auth_empty_username:
  "Auth ah address '''' passwd now s = (Inl ErrUsernameEmpty, s)"
  by (simp add: Auth_def)

theorem Auth_empty_username_witness:
  "Auth (auth_of [alice]) ''10.0.0.5'' '''' ''s3cret'' now0 0 = (Inl ErrUsernameEmpty, 0)
   \<and> snd (Auth (auth_of [alice]) ''10.0.0.5'' ''alice'' ''s3cret'' now0 0) = 1"
proof -
  have "snd (Auth (auth_of [alice]) ''10.0.0.5'' ''alice'' ''s3cret'' now0 0) = 1"
    by (simp add: Auth_one_user CanUse_steps ipCheck_def lockCheck_cases alice_def)
  with Auth_empty_username [where ah = "auth_of [alice]" and address = "''10.0.0.5''"
      and passwd = "''s3cret''" and now = now0 and s = 0]
  show ?thesis by simp
qed

text \<open>
  C6: for a username that is not empty, when the lookup gives no record \<open>Auth\<close>
  returns \<open>ErrUserNotFound\<close>, and when it gives more than one \<open>Auth\<close> returns
  \<open>ErrMutiUsers\<close>, for every password and every signing method.
\<close>

theorem Auth_user_count:
  assumes "username \<noteq> ''''"
    and "Read (userHandler ah) username address s = (Inr users, s')"
  shows "(length users = 0 \<longrightarrow> Auth ah address username passwd now s = (Inl ErrUserNotFound, s'))
       \<and> (1 < length users \<longrightarrow> Auth ah address username passwd now s = (Inl ErrMutiUsers, s'))"
  using assms by (simp add: Auth_def)

theorem Auth_user_count_witness:
  "Auth (auth_of []) ''10.0.0.5'' ''bob'' ''secret'' now0 0 = (Inl ErrUserNotFound, 1)
   \<and> Auth (auth_of [carol, carol]) ''10.0.0.5'' ''bob'' ''secret'' now0 0 = (Inl ErrMutiUsers, 1)
   \<and> Auth (auth_of [carol, carol]) ''10.0.0.5'' ''bob'' ''wrong'' now0 0 = (Inl ErrMutiUsers, 1)"
proof -
  have u: "''bob'' \<noteq> ''''" by simp
  from Auth_user_count [OF u Read_auth_of, where us1 = "[]" and passwd = "''secret''" and now = now0]
    Auth_user_count [OF u Read_auth_of, where us1 = "[carol, carol]" and passwd = "''secret''" and now = now0]
    Auth_user_count [OF u Read_auth_of, where us1 = "[carol, carol]" and passwd = "''wrong''" and now = now0]
  show ?thesis by simp
qed

text \<open>
  C3, as the claim states it, fails: carol was locked one hour ago for 30 minutes, she
  has no block list and the lookup gives her record alone; \<open>Auth\<close> returns her claims
  for the right password and \<open>ErrPasswordNotMatch\<close> for a wrong one, not the locked
  failure.
\<close>

theorem carol_lock_expired:
  "lockedAt carol = now0 - Hour \<and> lockedTimeExpires carol = 30 * Minute \<and> blockIPList carol = []
   \<and> Read (userHandler (auth_of [carol])) ''carol'' ''10.0.0.5'' 0 = (Inr [asUser lib0 reqOf0 carol], 1)
   \<and> Auth (auth_of [carol]) ''10.0.0.5'' ''carol'' ''secret'' now0 0 = (Inr carol_row, 1)
   \<and> Auth (auth_of [carol]) ''10.0.0.5'' ''carol'' ''wrong'' now0 0 = (Inl ErrPasswordNotMatch, 1)
   \<and> fst (Auth (auth_of [carol]) ''10.0.0.5'' ''carol'' ''secret'' now0 0) \<noteq> Inl ErrUserLocked
   \<and> fst (Auth (auth_of [carol]) ''10.0.0.5'' ''carol'' ''wrong'' now0 0) \<noteq> Inl ErrUserLocked"
  by (simp add: Auth_one_user CanUse_steps ipCheck_carol lockCheck_carol) (simp add: carol_def)

text \<open>
  C3, amended: for a record locked one hour before the current time with an expiry of
  30 minutes, no block list, and alone in the lookup, the lock has expired: the
  usability check succeeds and \<open>Auth\<close> goes on to the password steps
  (\<open>ErrPasswordEmpty\<close> for an empty stored secret, \<open>ErrPasswordNotMatch\<close> for a
  mismatch, any other error of the signing method unchanged, the claims on success).
\<close>

theorem Auth_expired_lock:
  assumes "lockedAt u = now - Hour" and "lockedTimeExpires u = 30 * Minute"
    and "blockIPList u = []" and "username \<noteq> ''''"
    and "Read (userHandler ah) username address s = (Inr [asUser lib reqOf u], s')"
  shows "CanUse lib u (reqOf address) now = (True, None)
       \<and> Auth ah address username passwd now s =
           (if password u = '''' then (Inl ErrPasswordEmpty, s')
            else
              (case Verify (signingMethod ah) passwd (password u) (secretKey ah) of
                 Some err \<Rightarrow> if err = ErrSignatureInvalid then (Inl ErrPasswordNotMatch, s') else (Inl err, s')
               | None \<Rightarrow> (Inr (data u), s')))"
proof -
  have "ipCheck lib u (reqOf address) = None"
    using assms(3) by (simp add: ipCheck_def)
  moreover have "lockCheck u now = None"
    using assms(1,2) by (simp add: lockCheck_cases Hour_def Minute_def)
  ultimately have ok: "CanUse lib u (reqOf address) now = (True, None)"
    by (simp add: CanUse_steps)
  then show ?thesis
    by (simp add: Auth_one_user [OF assms(4,5)] split: option.splits)
qed

theorem Auth_expired_lock_witness:
  "CanUse lib0 carol (reqOf0 ''10.0.0.5'') now0 = (True, None)
   \<and> Auth (auth_of [carol]) ''10.0.0.5'' ''carol'' ''secret'' now0 0 = (Inr carol_row, 1)"
proof -
  have a: "lockedAt carol = now0 - Hour" "lockedTimeExpires carol = 30 * Minute"
    "blockIPList carol = []" "''carol'' \<noteq> ''''"
    by (simp_all add: carol_def Hour_def Minute_def)
  have r: "Read (userHandler (auth_of [carol])) ''carol'' ''10.0.0.5'' 0 = (Inr [asUser lib0 reqOf0 carol], 1)"
    by simp
  from Auth_expired_lock [OF a r, where passwd = "''secret''"]
  show ?thesis by (simp add: carol_def)
qed

section \<open>Rewriting placeholders\<close>

text \<open>
  C8: \<open>ReplacePlaceholders\<close> maps \<open>WHERE x=? AND y=??\<close> to \<open>WHERE x=$1 AND y=?\<close>,
  and on every text it is the rewriting \<open>numbered_from\<close>, read from left to right: a
  doubled placeholder becomes one placeholder and takes no number, a single one becomes
  \<open>$\<close> and the next number, from 1.
\<close>

theorem ReplacePlaceholders_numbered:
  "ReplacePlaceholders ''WHERE x=? AND y=??'' = ''WHERE x=$1 AND y=?''
   \<and> ReplacePlaceholders sql = numbered_from 0 sql"
  by (simp add: ReplacePlaceholders_example) (simp add: ReplacePlaceholders_def ReplaceLoop_numbered)

theorem ReplacePlaceholders_numbered_witness:
  "ReplacePlaceholders ''a=? AND b=?? AND c=???'' = ''a=$1 AND b=? AND c=?$2''"
proof -
  have "numbered_from 0 ''a=? AND b=?? AND c=???'' = ''a=$1 AND b=? AND c=?$2''"
    by code_simp
  with ReplacePlaceholders_numbered [of "''a=? AND b=?? AND c=???''"]
  show ?thesis by simp
qed

section \<open>The fallback of Auth\<close>

text \<open>
  C9: \<open>CanUse\<close> never returns \<open>(false, nil)\<close>: a false result comes with an error
  and a true result with none. So when the records of the lookup are \<open>UserImpl\<close>
  records and the signing method does not itself return the error of the fallback,
  \<open>Auth\<close> does not return \<open>user is inused\<close>: the fallback branch is not reached.
\<close>

theorem CanUse_no_false_nil:
  "CanUse lib u req now \<noteq> (False, None)
   \<and> (fst (CanUse lib u req now) = False \<longrightarrow> snd (CanUse lib u req now) \<noteq> None)
   \<and> (fst (CanUse lib u req now) = True \<longrightarrow> snd (CanUse lib u req now) = None)
   \<and> (Read (userHandler ah) username address s = (Inr (map (asUser lib reqOf) us), s') \<longrightarrow>
       (\<forall>expected. Verify (signingMethod ah) passwd expected (secretKey ah) \<noteq> Some (ErrorsNew ''user is inused'')) \<longrightarrow>
       fst (Auth ah address username passwd now s) \<noteq> Inl (ErrorsNew ''user is inused''))"
proof -
  have "CanUse lib u req now \<noteq> (False, None)"
    "fst (CanUse lib u req now) = False \<longrightarrow> snd (CanUse lib u req now) \<noteq> None"
    "fst (CanUse lib u req now) = True \<longrightarrow> snd (CanUse lib u req now) = None"
    using CanUse_flag [of lib u req now] by (cases "CanUse lib u req now"; auto)+
  then show ?thesis
    using Auth_inused [of ah username address s lib reqOf us s' passwd now] by blast
qed

theorem CanUse_no_false_nil_witness:
  "CanUse lib0 dave (reqOf0 ''192.168.1.1'') now0 = (False, Some ErrUserIPBlocked)
   \<and> CanUse lib0 carol (reqOf0 ''10.0.0.5'') now0 = (True, None)
   \<and> fst (Auth (auth_of [dave]) ''192.168.1.1'' ''dave'' ''secret'' now0 0) = Inl ErrUserIPBlocked"
proof -
  have d: "fst (CanUse lib0 dave (reqOf0 ''192.168.1.1'') now0) = False"
    "snd (CanUse lib0 dave (reqOf0 ''192.168.1.1'') now0) \<in> {None, Some ErrUserIPBlocked}"
    by (simp_all add: CanUse_steps ipCheck_dave)
  have c: "fst (CanUse lib0 carol (reqOf0 ''10.0.0.5'') now0) = True"
    by (simp add: CanUse_steps ipCheck_carol lockCheck_carol)
  have a: "fst (Auth (auth_of [dave]) ''192.168.1.1'' ''dave'' ''secret'' now0 0)
           \<in> {Inl ErrUserIPBlocked, Inl (ErrorsNew ''user is inused'')}"
    by (simp add: Auth_one_user CanUse_steps ipCheck_dave)
  have v: "\<forall>expected. Verify (signingMethod (auth_of [dave])) ''secret'' expected (secretKey (auth_of [dave]))
             \<noteq> Some (ErrorsNew ''user is inused'')"
    by simp
  have r: "Read (userHandler (auth_of [dave])) ''dave'' ''192.168.1.1'' 0 =
             (Inr (map (asUser lib0 reqOf0) [dave]), Suc 0)"
    by simp
  from CanUse_no_false_nil [where lib = lib0 and u = dave and req = "reqOf0 ''192.168.1.1''" and now = now0
      and ah = "auth_of [dave]" and username = "''dave''" and address = "''192.168.1.1''" and s = 0
      and reqOf = reqOf0 and us = "[dave]" and s' = "Suc 0" and passwd = "''secret''"]
    CanUse_no_false_nil [where lib = lib0 and u = carol and req = "reqOf0 ''10.0.0.5''" and now = now0
      and ah = "auth_of [dave]" and username = "''dave''" and address = "''192.168.1.1''" and s = 0
      and reqOf = reqOf0 and us = "[dave]" and s' = "Suc 0" and passwd = "''secret''"]
    d c a v r
  show ?thesis
    by (cases "CanUse lib0 dave (reqOf0 ''192.168.1.1'') now0"; cases "CanUse lib0 carol (reqOf0 ''10.0.0.5'') now0") auto
qed

section \<open>The claims returned\<close>

text \<open>
  C10: when the records of the lookup are built by \<open>toUser\<close> from rows and \<open>Auth\<close>
  succeeds, there is one row, the claims returned are that row, whole, and the row holds
  under the password column the stored secret, which is not empty.
\<close>

theorem Auth_claims_full_row:
  assumes rows: "list_all2 (\<lambda>m u. toUser lib h username m = Inr u) rows us"
    and r: "Read (userHandler ah) username address s = (Inr (map (asUser lib reqOf) us), s')"
    and ok: "Auth ah address username passwd now s = (Inr claims, s'')"
  shows "rows = [claims]
       \<and> (\<exists>pw. pw \<noteq> '''' \<and> claims (passwordName h) = Some (VString pw) \<and> map password us = [pw])"
proof -
  have n: "username \<noteq> ''''" and len: "length us = 1"
    using r ok by (auto simp: Auth_def split: if_splits)
  then obtain u where us: "us = [u]"
    by (cases us) auto
  with rows obtain m where m: "rows = [m]" "toUser lib h username m = Inr u"
    by (auto simp: list_all2_Cons2)
  have r1: "Read (userHandler ah) username address s = (Inr [asUser lib reqOf u], s')"
    using r us by simp
  from ok have "claims = data u \<and> password u \<noteq> ''''"
    by (auto simp: Auth_one_user [OF n r1] split: prod.splits option.splits if_splits)
  with toUser_fields [OF m(2)] toUser_password_stored [of lib h m "password u"] m(1) us
  show ?thesis by simp
qed

theorem Auth_claims_full_row_witness:
  "Auth (auth_of [alice]) ''10.0.0.5'' ''alice'' ''s3cret'' now0 0 = (Inr alice_row, 1)
   \<and> alice_row (passwordName h0) = Some (VString ''s3cret'')"
proof -
  have a: "list_all2 (\<lambda>m u. toUser lib0 h0 ''alice'' m = Inr u) [alice_row] [alice]"
    by (simp add: toUser_alice)
  have r: "Read (userHandler (auth_of [alice])) ''alice'' ''10.0.0.5'' 0 =
             (Inr (map (asUser lib0 reqOf0) [alice]), 1)"
    by simp
  have ok: "Auth (auth_of [alice]) ''10.0.0.5'' ''alice'' ''s3cret'' now0 0 = (Inr (data alice), 1)"
    by (simp add: Auth_one_user CanUse_steps ipCheck_def lockCheck_cases) (simp add: alice_def)
  from Auth_claims_full_row [OF a r ok] ok
  show ?thesis by (auto simp: alice_def)
qed

end
